theory Spec2Isabelle
  imports Complex_Main "HOL-Library.Char_ord" "HOL-Library.List_Lexorder"
begin

section \<open>Values, dictionaries and exceptions\<close>

text \<open>
  The module \<open>util/transshipment2_utils.py\<close> has three functions:
  \<open>solve_transshipment_problem\<close>, \<open>plot_transshipment_network\<close> and
  \<open>plot_stacked_bar_chart\<close>. Node names are strings, an arc is a pair of node names,
  and supply, demand and cost values are numbers, taken here as reals.

  A Python dictionary is an association list in insertion order: iterating it yields
  \<open>dict_keys\<close>, and \<open>d[k]\<close> is \<open>getitem\<close>, which raises \<open>KeyError\<close> on a key that
  is absent. Exceptions are values: a call returns \<open>Inl\<close> of the exception or \<open>Inr\<close>
  of its result, and \<open>sbind\<close> runs the next statement only after a result, so that an
  exception leaves the function at the statement that raised it. Nothing in the module
  is a \<open>try\<close> statement.
\<close>

type_synonym node = string
type_synonym arc = "node \<times> node"

datatype dict_key = StrKey string | PairKey node node

datatype error = KeyError dict_key | TypeError | LibraryError string

definition sbind :: "error + 'a \<Rightarrow> ('a \<Rightarrow> error + 'b) \<Rightarrow> error + 'b" where
  "sbind m f = (case m of Inl e \<Rightarrow> Inl e | Inr x \<Rightarrow> f x)"

type_synonym ('k, 'v) dict = "('k \<times> 'v) list"

definition dict_keys :: "('k, 'v) dict \<Rightarrow> 'k list" where
  "dict_keys d = map fst d"

definition getitem :: "('k \<Rightarrow> dict_key) \<Rightarrow> ('k, 'v) dict \<Rightarrow> 'k \<Rightarrow> error + 'v" where
  "getitem as_key d k =
     (case map_of d k of None \<Rightarrow> Inl (KeyError (as_key k)) | Some v \<Rightarrow> Inr v)"

definition arc_key :: "arc \<Rightarrow> dict_key" where
  "arc_key k = PairKey (fst k) (snd k)"

section \<open>The linear program as the modelling library holds it\<close>

text \<open>
  The objects of the modelling library that the function builds, as data. A variable
  object is identified by the key of \<open>flow\<close> it is stored under (\<open>var_key\<close>): two
  variables under different keys are different objects even when their names agree.
  An affine expression is a list of terms \<open>coefficient * variable\<close> and a constant; a
  constraint compares two expressions as the source writes them.
\<close>

datatype LpCategory = LpContinuous | LpInteger | LpBinary

record LpVariable =
  var_key :: arc
  var_name :: string
  lowBound :: "real option"
  upBound :: "real option"
  cat :: LpCategory

record LpAffineExpression =
  terms :: "(real \<times> LpVariable) list"
  constant_term :: real

datatype LpConstraintSense = LpConstraintLE | LpConstraintGE | LpConstraintEQ

record LpConstraint =
  lhs :: LpAffineExpression
  sense :: LpConstraintSense
  rhs :: LpAffineExpression
  constraint_name :: string

datatype LpSense = LpMinimize | LpMaximize

record LpProblem =
  problem_name :: string
  problem_sense :: LpSense
  objective :: LpAffineExpression
  objective_name :: string
  constraints :: "LpConstraint list"

definition new_problem :: "string \<Rightarrow> LpSense \<Rightarrow> LpProblem" where
  "new_problem n s =
     \<lparr>problem_name = n, problem_sense = s,
      objective = \<lparr>terms = [], constant_term = 0\<rparr>, objective_name = [], constraints = []\<rparr>"

text \<open>\<open>pulp.lpSum\<close> of a sequence of terms, and a number used as an expression.\<close>

definition lpSum :: "(real \<times> LpVariable) list \<Rightarrow> LpAffineExpression" where
  "lpSum ts = \<lparr>terms = ts, constant_term = 0\<rparr>"

definition number :: "real \<Rightarrow> LpAffineExpression" where
  "number c = \<lparr>terms = [], constant_term = c\<rparr>"

text \<open>\<open>problem += constraint, name\<close>.\<close>

definition add_constraint :: "LpProblem \<Rightarrow> LpConstraint \<Rightarrow> LpProblem" where
  "add_constraint p c = p\<lparr>constraints := constraints p @ [c]\<rparr>"

section \<open>Building the model (lines 23 to 46)\<close>

text \<open>
  Line 31: one variable per key of \<open>cost\<close>, named \<open>flow_i_j\<close>, with lower bound 0, no
  upper bound and category Continuous.
\<close>

definition new_variable :: "arc \<Rightarrow> LpVariable" where
  "new_variable k =
     \<lparr>var_key = k, var_name = ''flow_'' @ fst k @ ''_'' @ snd k,
      lowBound = Some 0, upBound = None, cat = LpContinuous\<rparr>"

definition flow_variables :: "(arc, real) dict \<Rightarrow> (arc, LpVariable) dict" where
  "flow_variables cost = map (\<lambda>k. (k, new_variable k)) (dict_keys cost)"

text \<open>
  The generator \<open>flow[i, j] for ...\<close> handed to \<open>lpSum\<close>: the keys are looked up in
  order and the first absent one raises.
\<close>

fun flow_terms :: "(arc, LpVariable) dict \<Rightarrow> arc list \<Rightarrow> error + (real \<times> LpVariable) list" where
  "flow_terms flow [] = Inr []"
| "flow_terms flow (k # ks) =
     sbind (getitem arc_key flow k) (\<lambda>v.
     sbind (flow_terms flow ks) (\<lambda>ts. Inr ((1, v) # ts)))"

text \<open>Line 34: the generator \<open>cost[i, j] * flow[i, j] for (i, j) in cost\<close>.\<close>

fun objective_terms ::
  "(arc, real) dict \<Rightarrow> (arc, LpVariable) dict \<Rightarrow> arc list \<Rightarrow> error + (real \<times> LpVariable) list" where
  "objective_terms cost flow [] = Inr []"
| "objective_terms cost flow (k # ks) =
     sbind (getitem arc_key cost k) (\<lambda>c.
     sbind (getitem arc_key flow k) (\<lambda>v.
     sbind (objective_terms cost flow ks) (\<lambda>ts. Inr ((c, v) # ts))))"

text \<open>Line 38: the constraint of source \<open>i\<close>; the sum is built before \<open>supply[i]\<close> is read.\<close>

definition supply_constraint ::
  "(arc, LpVariable) dict \<Rightarrow> (node, real) dict \<Rightarrow> node list \<Rightarrow> node \<Rightarrow> error + LpConstraint" where
  "supply_constraint flow supply transshipments i =
     sbind (flow_terms flow (map (\<lambda>j. (i, j)) transshipments)) (\<lambda>ts.
     sbind (getitem StrKey supply i) (\<lambda>s.
     Inr \<lparr>lhs = lpSum ts, sense = LpConstraintLE, rhs = number s,
          constraint_name = ''Supply_'' @ i\<rparr>))"

text \<open>Line 42: the constraint of destination \<open>j\<close>.\<close>

definition demand_constraint ::
  "(arc, LpVariable) dict \<Rightarrow> (node, real) dict \<Rightarrow> node list \<Rightarrow> node \<Rightarrow> error + LpConstraint" where
  "demand_constraint flow demand transshipments j =
     sbind (flow_terms flow (map (\<lambda>i. (i, j)) transshipments)) (\<lambda>ts.
     sbind (getitem StrKey demand j) (\<lambda>d.
     Inr \<lparr>lhs = lpSum ts, sense = LpConstraintGE, rhs = number d,
          constraint_name = ''Demand_'' @ j\<rparr>))"

text \<open>Line 46: the constraint of transshipment node \<open>k\<close>, inflow on the left.\<close>

definition transshipment_constraint ::
  "(arc, LpVariable) dict \<Rightarrow> node list \<Rightarrow> node list \<Rightarrow> node \<Rightarrow> error + LpConstraint" where
  "transshipment_constraint flow sources destinations k =
     sbind (flow_terms flow (map (\<lambda>i. (i, k)) sources)) (\<lambda>ins.
     sbind (flow_terms flow (map (\<lambda>j. (k, j)) destinations)) (\<lambda>outs.
     Inr \<lparr>lhs = lpSum ins, sense = LpConstraintEQ, rhs = lpSum outs,
          constraint_name = ''Transshipment_'' @ k\<rparr>))"

text \<open>A loop \<open>for x in xs: problem += mk x\<close>.\<close>

fun add_constraints ::
  "('a \<Rightarrow> error + LpConstraint) \<Rightarrow> 'a list \<Rightarrow> LpProblem \<Rightarrow> error + LpProblem" where
  "add_constraints mk [] p = Inr p"
| "add_constraints mk (x # xs) p =
     sbind (mk x) (\<lambda>c. add_constraints mk xs (add_constraint p c))"

text \<open>
  Lines 23 to 46 of \<open>solve_transshipment_problem\<close>: the three role lists are read from
  \<open>nodes\<close>, then the variables, the objective and the three families of constraints are
  made, in this order. The result is the dictionary \<open>flow\<close> and the problem.
\<close>

definition transshipment_model ::
  "(string, node list) dict \<Rightarrow> (node, real) dict \<Rightarrow> (node, real) dict \<Rightarrow> (arc, real) dict
     \<Rightarrow> error + ((arc, LpVariable) dict \<times> LpProblem)" where
  "transshipment_model nodes supply demand cost =
     sbind (getitem StrKey nodes ''sources'') (\<lambda>sources.
     sbind (getitem StrKey nodes ''transshipments'') (\<lambda>transshipments.
     sbind (getitem StrKey nodes ''destinations'') (\<lambda>destinations.
     let problem0 = new_problem ''Transshipment_Problem'' LpMinimize;
         flow = flow_variables cost
     in
     sbind (objective_terms cost flow (dict_keys cost)) (\<lambda>ts.
     let problem1 = problem0\<lparr>objective := lpSum ts, objective_name := ''Total Cost''\<rparr> in
     sbind (add_constraints (supply_constraint flow supply transshipments) sources problem1)
       (\<lambda>problem2.
     sbind (add_constraints (demand_constraint flow demand transshipments) destinations problem2)
       (\<lambda>problem3.
     sbind (add_constraints (transshipment_constraint flow sources destinations) transshipments
              problem3)
       (\<lambda>problem4. Inr (flow, problem4))))))))"

section \<open>The solver and the plotting libraries\<close>

text \<open>
  \<open>problem.variables()\<close>: the variables of the objective and of the constraints, each
  once, ordered by name.
\<close>

definition expression_variables :: "LpAffineExpression \<Rightarrow> LpVariable list" where
  "expression_variables e = map snd (terms e)"

definition constraint_variables :: "LpConstraint \<Rightarrow> LpVariable list" where
  "constraint_variables c = expression_variables (lhs c) @ expression_variables (rhs c)"

definition variables :: "LpProblem \<Rightarrow> LpVariable list" where
  "variables p =
     sort_key var_name
       (remdups (expression_variables (objective p) @
                 concat (map constraint_variables (constraints p))))"

text \<open>
  The libraries are not part of the repository; they are a parameter of the model.
  \<open>pulp_solve\<close> is \<open>problem.solve()\<close>: it raises, or it ends with a status and with
  the attribute \<open>varValue\<close> of every variable object set to a number or left \<open>None\<close>.
  The two drawing fields stand for the calls into networkx and matplotlib, which
  raise or return nothing, and \<open>format_1f\<close> for the format \<open>.1f\<close> of a float.
\<close>

datatype LpStatus =
  LpStatusNotSolved | LpStatusOptimal | LpStatusInfeasible | LpStatusUnbounded
| LpStatusUndefined

record solution =
  status :: LpStatus
  varValue :: "arc \<Rightarrow> real option"

record network =
  graph_nodes :: "node list"
  graph_edges :: "(arc \<times> real \<times> real option) list"
  positions :: "(node \<times> int \<times> int) list"

record bar_chart =
  bar_positions :: "node list"
  bar_series :: "(node \<times> (node \<times> real option) list) list"
  x_label :: string
  chart_title :: string

record library =
  pulp_solve :: "LpProblem \<Rightarrow> string + solution"
  nx_draw :: "network \<Rightarrow> string option"
  nx_draw_edge_labels :: "network \<Rightarrow> (arc \<times> string) list \<Rightarrow> string option"
  format_1f :: "real \<Rightarrow> string"
  plt_stacked_bars :: "bar_chart \<Rightarrow> string option"

definition solver_call :: "string + solution \<Rightarrow> error + solution" where
  "solver_call r = (case r of Inl m \<Rightarrow> Inl (LibraryError m) | Inr s \<Rightarrow> Inr s)"

definition drawing_call :: "string option \<Rightarrow> error + unit" where
  "drawing_call r = (case r of Some m \<Rightarrow> Inl (LibraryError m) | None \<Rightarrow> Inr ())"

text \<open>
  \<open>pulp.value(expression)\<close>: \<open>None\<close> as soon as a variable of the expression has no
  value, the constant plus the sum of coefficient times value otherwise.
\<close>

fun terms_value :: "(arc \<Rightarrow> real option) \<Rightarrow> (real \<times> LpVariable) list \<Rightarrow> real option" where
  "terms_value vals [] = Some 0"
| "terms_value vals ((c, v) # ts) =
     (case vals (var_key v) of
        None \<Rightarrow> None
      | Some x \<Rightarrow> (case terms_value vals ts of None \<Rightarrow> None | Some s \<Rightarrow> Some (c * x + s)))"

definition pulp_value :: "(arc \<Rightarrow> real option) \<Rightarrow> LpAffineExpression \<Rightarrow> real option" where
  "pulp_value vals e =
     (case terms_value vals (terms e) of None \<Rightarrow> None | Some s \<Rightarrow> Some (constant_term e + s))"

section \<open>The plotting functions\<close>

text \<open>
  \<open>plot_transshipment_network\<close> (lines 68 to 112) makes the graph, draws it, makes the
  edge labels and draws them; \<open>plot_stacked_bar_chart\<close> (lines 114 to 174) makes the
  table of flows and draws one stacked bar chart per tier. What is drawn is handed to
  the library as data.
\<close>

text \<open>Lines 95 to 99: the positions are fixed for twelve node names.\<close>

definition pos :: "(node \<times> int \<times> int) list" where
  "pos =
     [(''F1'', (0, 3)), (''F2'', (0, 2)), (''F3'', (0, 1)), (''F4'', (0, 0)), (''F5'', (0, -1)),
      (''XD1'', (1, 1)), (''XD2'', (1, -1)),
      (''DC1'', (2, 2)), (''DC2'', (2, 1)), (''DC3'', (2, 0)), (''DC4'', (2, -1)),
      (''DC5'', (2, -2))]"

text \<open>Lines 91 and 92: one edge per key of \<open>cost\<close>, weighted by the cost, with the flow value.\<close>

fun network_edges ::
  "(arc, real) dict \<Rightarrow> (arc, LpVariable) dict \<Rightarrow> (arc \<Rightarrow> real option) \<Rightarrow> arc list
     \<Rightarrow> error + (arc \<times> real \<times> real option) list" where
  "network_edges cost flow vals [] = Inr []"
| "network_edges cost flow vals (k # ks) =
     sbind (getitem arc_key cost k) (\<lambda>w.
     sbind (getitem arc_key flow k) (\<lambda>v.
     sbind (network_edges cost flow vals ks) (\<lambda>es. Inr ((k, w, vals (var_key v)) # es))))"

text \<open>Line 108: the label of an edge is its flow value in the format \<open>.1f\<close>, which
  raises \<open>TypeError\<close> on \<open>None\<close>.\<close>

fun edge_labels ::
  "library \<Rightarrow> (arc, LpVariable) dict \<Rightarrow> (arc \<Rightarrow> real option) \<Rightarrow> arc list
     \<Rightarrow> error + (arc \<times> string) list" where
  "edge_labels L flow vals [] = Inr []"
| "edge_labels L flow vals (k # ks) =
     sbind (getitem arc_key flow k) (\<lambda>v.
     (case vals (var_key v) of
        None \<Rightarrow> Inl TypeError
      | Some x \<Rightarrow> sbind (edge_labels L flow vals ks) (\<lambda>ls. Inr ((k, format_1f L x) # ls))))"

definition plot_transshipment_network ::
  "library \<Rightarrow> (string, node list) dict \<Rightarrow> (node, real) dict \<Rightarrow> (node, real) dict
     \<Rightarrow> (arc, real) dict \<Rightarrow> (arc, LpVariable) dict \<Rightarrow> (arc \<Rightarrow> real option) \<Rightarrow> error + unit" where
  "plot_transshipment_network L nodes supply demand cost flow vals =
     sbind (getitem StrKey nodes ''sources'') (\<lambda>sources.
     sbind (getitem StrKey nodes ''transshipments'') (\<lambda>transshipments.
     sbind (getitem StrKey nodes ''destinations'') (\<lambda>destinations.
     sbind (network_edges cost flow vals (dict_keys cost)) (\<lambda>edges.
     let G = \<lparr>graph_nodes = sources @ transshipments @ destinations, graph_edges = edges,
              positions = pos\<rparr>
     in
     sbind (drawing_call (nx_draw L G)) (\<lambda>_.
     sbind (edge_labels L flow vals (dict_keys cost)) (\<lambda>labels.
     drawing_call (nx_draw_edge_labels L G labels)))))))"

text \<open>Lines 133 to 136: the rows \<open>From, To, Flow\<close> of \<open>flow.items()\<close>.\<close>

definition flow_rows ::
  "(arc, LpVariable) dict \<Rightarrow> (arc \<Rightarrow> real option) \<Rightarrow> (node \<times> node \<times> real option) list" where
  "flow_rows flow vals = map (\<lambda>(k, var). (fst k, snd k, vals (var_key var))) flow"

text \<open>The bars of one chart: for every node of \<open>froms\<close>, the rows that leave it.\<close>

definition stacked_series ::
  "(node \<times> node \<times> real option) list \<Rightarrow> node list \<Rightarrow> (node \<times> (node \<times> real option) list) list" where
  "stacked_series flow_df froms =
     map (\<lambda>s. (s, map snd (filter (\<lambda>r. fst r = s) flow_df))) froms"

definition plot_stacked_bar_chart ::
  "library \<Rightarrow> (arc, LpVariable) dict \<Rightarrow> (arc \<Rightarrow> real option) \<Rightarrow> (string, node list) dict
     \<Rightarrow> error + unit" where
  "plot_stacked_bar_chart L flow vals nodes =
     sbind (getitem StrKey nodes ''sources'') (\<lambda>sources.
     sbind (getitem StrKey nodes ''transshipments'') (\<lambda>transshipments.
     sbind (getitem StrKey nodes ''destinations'') (\<lambda>destinations.
     let flow_df = flow_rows flow vals;
         flow_sources_to_transshipments = filter (\<lambda>r. fst r \<in> set sources) flow_df;
         flow_transshipments_to_destinations = filter (\<lambda>r. fst r \<in> set transshipments) flow_df
     in
     sbind (drawing_call (plt_stacked_bars L
              \<lparr>bar_positions = transshipments,
               bar_series = stacked_series flow_sources_to_transshipments sources,
               x_label = ''Transshipment Nodes'',
               chart_title = ''Flow from Sources to Transshipment Nodes''\<rparr>)) (\<lambda>_.
     drawing_call (plt_stacked_bars L
              \<lparr>bar_positions = destinations,
               bar_series = stacked_series flow_transshipments_to_destinations transshipments,
               x_label = ''Destination Nodes'',
               chart_title = ''Flow from Transshipment Nodes to Destinations''\<rparr>)))))"

section \<open>The function \<open>solve_transshipment_problem\<close>\<close>

text \<open>
  Lines 48 to 66. The variable objects are shared by \<open>flow\<close> and the problem; the
  values the solver writes on them are the map \<open>varValue\<close> of its result, read
  through the key of the variable. \<open>results_df\<close> has one row, name and value, for
  every variable of the problem, and \<open>total_cost\<close> is the value of the objective. Both
  are made before the plots, which receive neither. The flags default to \<open>False\<close>.
\<close>

record DataFrame =
  columns :: "string list"
  rows :: "(string \<times> real option) list"

definition solve_transshipment_problem ::
  "library \<Rightarrow> (string, node list) dict \<Rightarrow> (node, real) dict \<Rightarrow> (node, real) dict
     \<Rightarrow> (arc, real) dict \<Rightarrow> bool \<Rightarrow> bool \<Rightarrow> error + (DataFrame \<times> real option)" where
  "solve_transshipment_problem L nodes supply demand cost plot_network plot_bar_chart =
     sbind (transshipment_model nodes supply demand cost) (\<lambda>(flow, problem).
     sbind (solver_call (pulp_solve L problem)) (\<lambda>solved.
     let results = map (\<lambda>v. (var_name v, varValue solved (var_key v))) (variables problem);
         results_df = \<lparr>columns = [''Variable'', ''Value''], rows = results\<rparr>;
         total_cost = pulp_value (varValue solved) (objective problem)
     in
     sbind (if plot_network
            then plot_transshipment_network L nodes supply demand cost flow (varValue solved)
            else Inr ()) (\<lambda>_.
     sbind (if plot_bar_chart
            then plot_stacked_bar_chart L flow (varValue solved) nodes
            else Inr ()) (\<lambda>_.
     Inr (results_df, total_cost)))))"

section \<open>What a linear program means\<close>

text \<open>
  The meaning of the problem object under an assignment \<open>f\<close> of a number to every
  variable: the value of an expression, when a constraint holds, and when a variable is
  within its bounds. An assignment is feasible when every variable of the problem is
  within its bounds and every constraint holds; it is optimal for a minimisation when
  it is feasible and no feasible assignment has a smaller objective. \<open>assigns s p f\<close>
  says that the solver left the value \<open>f\<close> on every variable of \<open>p\<close>.
\<close>

definition terms_sum :: "(arc \<Rightarrow> real) \<Rightarrow> (real \<times> LpVariable) list \<Rightarrow> real" where
  "terms_sum f ts = sum_list (map (\<lambda>t. fst t * f (var_key (snd t))) ts)"

definition expression_value :: "(arc \<Rightarrow> real) \<Rightarrow> LpAffineExpression \<Rightarrow> real" where
  "expression_value f e = constant_term e + terms_sum f (terms e)"

definition constraint_holds :: "(arc \<Rightarrow> real) \<Rightarrow> LpConstraint \<Rightarrow> bool" where
  "constraint_holds f c =
     (case sense c of
        LpConstraintLE \<Rightarrow> expression_value f (lhs c) \<le> expression_value f (rhs c)
      | LpConstraintGE \<Rightarrow> expression_value f (rhs c) \<le> expression_value f (lhs c)
      | LpConstraintEQ \<Rightarrow> expression_value f (lhs c) = expression_value f (rhs c))"

definition within_bounds :: "(arc \<Rightarrow> real) \<Rightarrow> LpVariable \<Rightarrow> bool" where
  "within_bounds f v =
     ((case lowBound v of None \<Rightarrow> True | Some l \<Rightarrow> l \<le> f (var_key v)) \<and>
      (case upBound v of None \<Rightarrow> True | Some u \<Rightarrow> f (var_key v) \<le> u))"

definition lp_feasible :: "LpProblem \<Rightarrow> (arc \<Rightarrow> real) \<Rightarrow> bool" where
  "lp_feasible p f =
     ((\<forall>v \<in> set (variables p). within_bounds f v) \<and>
      (\<forall>c \<in> set (constraints p). constraint_holds f c))"

definition lp_optimal :: "LpProblem \<Rightarrow> (arc \<Rightarrow> real) \<Rightarrow> bool" where
  "lp_optimal p f =
     (lp_feasible p f \<and>
      (\<forall>g. lp_feasible p g \<longrightarrow>
           expression_value f (objective p) \<le> expression_value g (objective p)))"

definition assigns :: "solution \<Rightarrow> LpProblem \<Rightarrow> (arc \<Rightarrow> real) \<Rightarrow> bool" where
  "assigns s p f = (\<forall>v \<in> set (variables p). varValue s (var_key v) = Some (f (var_key v)))"

section \<open>The transshipment problem in the words of the specification\<close>

text \<open>
  The role lists of \<open>nodes\<close>, and the four conditions on a flow \<open>f\<close> that gives a number
  to every arc: nonnegative on the keys of \<open>cost\<close>; out of every source at most its
  supply; into every destination at least its demand; into every transshipment node as
  much as out of it. The cost of a flow is the sum over the entries of \<open>cost\<close> of cost
  times flow.
\<close>

definition role :: "(string, node list) dict \<Rightarrow> string \<Rightarrow> node list" where
  "role nodes r = (case map_of nodes r of None \<Rightarrow> [] | Some xs \<Rightarrow> xs)"

definition nonnegative_flow :: "(arc, real) dict \<Rightarrow> (arc \<Rightarrow> real) \<Rightarrow> bool" where
  "nonnegative_flow cost f = (\<forall>k \<in> set (dict_keys cost). 0 \<le> f k)"

definition supply_limits ::
  "(string, node list) dict \<Rightarrow> (node, real) dict \<Rightarrow> (arc \<Rightarrow> real) \<Rightarrow> bool" where
  "supply_limits nodes supply f =
     (\<forall>i \<in> set (role nodes ''sources'').
        \<exists>s. map_of supply i = Some s \<and>
            sum_list (map (\<lambda>k. f (i, k)) (role nodes ''transshipments'')) \<le> s)"

definition demand_requirements ::
  "(string, node list) dict \<Rightarrow> (node, real) dict \<Rightarrow> (arc \<Rightarrow> real) \<Rightarrow> bool" where
  "demand_requirements nodes demand f =
     (\<forall>j \<in> set (role nodes ''destinations'').
        \<exists>d. map_of demand j = Some d \<and>
            d \<le> sum_list (map (\<lambda>k. f (k, j)) (role nodes ''transshipments'')))"

definition flow_conservation :: "(string, node list) dict \<Rightarrow> (arc \<Rightarrow> real) \<Rightarrow> bool" where
  "flow_conservation nodes f =
     (\<forall>k \<in> set (role nodes ''transshipments'').
        sum_list (map (\<lambda>i. f (i, k)) (role nodes ''sources'')) =
        sum_list (map (\<lambda>j. f (k, j)) (role nodes ''destinations'')))"

definition feasible_flow ::
  "(string, node list) dict \<Rightarrow> (node, real) dict \<Rightarrow> (node, real) dict \<Rightarrow> (arc, real) dict
     \<Rightarrow> (arc \<Rightarrow> real) \<Rightarrow> bool" where
  "feasible_flow nodes supply demand cost f =
     (nonnegative_flow cost f \<and> supply_limits nodes supply f \<and>
      demand_requirements nodes demand f \<and> flow_conservation nodes f)"

definition total_flow_cost :: "(arc, real) dict \<Rightarrow> (arc \<Rightarrow> real) \<Rightarrow> real" where
  "total_flow_cost cost f = sum_list (map (\<lambda>e. snd e * f (fst e)) cost)"

definition minimum_cost_flow ::
  "(string, node list) dict \<Rightarrow> (node, real) dict \<Rightarrow> (node, real) dict \<Rightarrow> (arc, real) dict
     \<Rightarrow> (arc \<Rightarrow> real) \<Rightarrow> bool" where
  "minimum_cost_flow nodes supply demand cost f =
     (feasible_flow nodes supply demand cost f \<and>
      (\<forall>g. feasible_flow nodes supply demand cost g \<longrightarrow>
           total_flow_cost cost f \<le> total_flow_cost cost g))"

text \<open>
  Well-formedness as the specification words it: every key of \<open>cost\<close> joins a source
  to a transshipment node or a transshipment node to a destination. \<open>entries_present\<close>
  lists the entries the constraints read.
\<close>

definition three_tier_arc :: "(string, node list) dict \<Rightarrow> arc \<Rightarrow> bool" where
  "three_tier_arc nodes k =
     ((fst k \<in> set (role nodes ''sources'') \<and> snd k \<in> set (role nodes ''transshipments'')) \<or>
      (fst k \<in> set (role nodes ''transshipments'') \<and> snd k \<in> set (role nodes ''destinations'')))"

definition roles_present :: "(string, node list) dict \<Rightarrow> bool" where
  "roles_present nodes =
     (map_of nodes ''sources'' \<noteq> None \<and> map_of nodes ''transshipments'' \<noteq> None \<and>
      map_of nodes ''destinations'' \<noteq> None)"

definition entries_present ::
  "(string, node list) dict \<Rightarrow> (node, real) dict \<Rightarrow> (node, real) dict \<Rightarrow> (arc, real) dict
     \<Rightarrow> bool" where
  "entries_present nodes supply demand cost =
     ((\<forall>i \<in> set (role nodes ''sources''). \<forall>k \<in> set (role nodes ''transshipments'').
         (i, k) \<in> set (dict_keys cost)) \<and>
      (\<forall>k \<in> set (role nodes ''transshipments''). \<forall>j \<in> set (role nodes ''destinations'').
         (k, j) \<in> set (dict_keys cost)) \<and>
      (\<forall>i \<in> set (role nodes ''sources''). i \<in> set (dict_keys supply)) \<and>
      (\<forall>j \<in> set (role nodes ''destinations''). j \<in> set (dict_keys demand)))"

definition well_formed ::
  "(string, node list) dict \<Rightarrow> (node, real) dict \<Rightarrow> (node, real) dict \<Rightarrow> (arc, real) dict
     \<Rightarrow> bool" where
  "well_formed nodes supply demand cost =
     (roles_present nodes \<and> distinct (dict_keys cost) \<and>
      (\<forall>k \<in> set (dict_keys cost). three_tier_arc nodes k) \<and>
      entries_present nodes supply demand cost)"

section \<open>Auxiliary functions and inputs for evaluation\<close>

text \<open>The constraints a loop adds, or its first exception.\<close>

fun loop_constraints :: "('a \<Rightarrow> error + LpConstraint) \<Rightarrow> 'a list \<Rightarrow> error + LpConstraint list" where
  "loop_constraints mk [] = Inr []"
| "loop_constraints mk (x # xs) =
     sbind (mk x) (\<lambda>c. sbind (loop_constraints mk xs) (\<lambda>cs. Inr (c # cs)))"

text \<open>
  The problem object after the three loops have added the constraints \<open>c1\<close>, \<open>c2\<close>
  and \<open>c3\<close>.
\<close>

definition model_problem ::
  "(arc, real) dict \<Rightarrow> LpConstraint list \<Rightarrow> LpConstraint list \<Rightarrow> LpConstraint list \<Rightarrow> LpProblem" where
  "model_problem cost c1 c2 c3 =
     \<lparr>problem_name = ''Transshipment_Problem'', problem_sense = LpMinimize,
      objective = lpSum (map (\<lambda>k. (the (map_of cost k), new_variable k)) (dict_keys cost)),
      objective_name = ''Total Cost'', constraints = c1 @ c2 @ c3\<rparr>"

text \<open>
  An exception that a call into the solver or into a drawing library raised: the
  message is the one the call ended with.
\<close>

definition raised_by_library :: "library \<Rightarrow> error \<Rightarrow> bool" where
  "raised_by_library L e =
     (\<exists>m. e = LibraryError m \<and>
          ((\<exists>p. pulp_solve L p = Inl m) \<or> (\<exists>g. nx_draw L g = Some m) \<or>
           (\<exists>g ls. nx_draw_edge_labels L g ls = Some m) \<or>
           (\<exists>c. plt_stacked_bars L c = Some m)))"

text \<open>
  A library whose solver ends with the given status and values whatever the problem,
  and whose drawing calls all return.
\<close>

definition quiet_library :: "LpStatus \<Rightarrow> (arc \<Rightarrow> real option) \<Rightarrow> library" where
  "quiet_library st vals =
     \<lparr>pulp_solve = (\<lambda>p. Inr \<lparr>status = st, varValue = vals\<rparr>),
      nx_draw = (\<lambda>g. None), nx_draw_edge_labels = (\<lambda>g ls. None),
      format_1f = (\<lambda>x. []), plt_stacked_bars = (\<lambda>c. None)\<rparr>"

text \<open>A library whose solver raises, with the message \<open>m\<close>.\<close>

definition failing_solver_library :: "string \<Rightarrow> library" where
  "failing_solver_library m =
     \<lparr>pulp_solve = (\<lambda>p. Inl m),
      nx_draw = (\<lambda>g. None), nx_draw_edge_labels = (\<lambda>g ls. None),
      format_1f = (\<lambda>x. []), plt_stacked_bars = (\<lambda>c. None)\<rparr>"

text \<open>Lines 52 to 56: the pair the function returns, from the problem and the solver's values.\<close>

definition returned_pair :: "LpProblem \<Rightarrow> (arc \<Rightarrow> real option) \<Rightarrow> DataFrame \<times> real option" where
  "returned_pair p vals =
     (\<lparr>columns = [''Variable'', ''Value''],
       rows = map (\<lambda>v. (var_name v, vals (var_key v))) (variables p)\<rparr>,
      pulp_value vals (objective p))"

text \<open>One source, one transshipment node, one destination.\<close>

definition chain_nodes :: "(string, node list) dict" where
  "chain_nodes =
     [(''sources'', [''F1'']), (''transshipments'', [''XD1'']), (''destinations'', [''DC1''])]"

definition chain_cost :: "(arc, real) dict" where
  "chain_cost = [((''F1'', ''XD1''), 1), ((''XD1'', ''DC1''), 3)]"

definition chain_flow :: "real \<Rightarrow> real \<Rightarrow> arc \<Rightarrow> real" where
  "chain_flow x y k =
     (if k = (''F1'', ''XD1'') then x else if k = (''XD1'', ''DC1'') then y else 0)"

definition chain_values :: "real \<Rightarrow> real \<Rightarrow> arc \<Rightarrow> real option" where
  "chain_values x y k =
     (if k = (''F1'', ''XD1'') then Some x else if k = (''XD1'', ''DC1'') then Some y else None)"

section \<open>Exceptions and dictionary lookups\<close>

lemma sbind_Inl [simp]: "sbind (Inl e) f = Inl e" by (simp add: sbind_def)
lemma sbind_Inr [simp]: "sbind (Inr x) f = f x" by (simp add: sbind_def)

lemma sbind_eq_Inr: "sbind m f = Inr y \<longleftrightarrow> (\<exists>x. m = Inr x \<and> f x = Inr y)"
  by (cases m) simp_all

lemma sbind_eq_Inl: "sbind m f = Inl e \<longleftrightarrow> m = Inl e \<or> (\<exists>x. m = Inr x \<and> f x = Inl e)"
  by (cases m) simp_all

lemma getitem_eq_Inr: "getitem ak d k = Inr v \<longleftrightarrow> map_of d k = Some v"
  by (simp add: getitem_def split: option.splits)

lemma getitem_eq_Inl: "getitem ak d k = Inl e \<longleftrightarrow> map_of d k = None \<and> e = KeyError (ak k)"
  by (auto simp: getitem_def split: option.splits)

lemma map_of_eq_None_keys: "map_of d k = None \<longleftrightarrow> k \<notin> set (dict_keys d)"
  by (simp add: dict_keys_def map_of_eq_None_iff)

lemma map_of_flow_variables:
  "map_of (flow_variables cost) k =
     (if k \<in> set (dict_keys cost) then Some (new_variable k) else None)"
  by (simp add: flow_variables_def map_of_map_restrict restrict_map_def)

lemma getitem_flow_variables:
  "getitem arc_key (flow_variables cost) k =
     (if k \<in> set (dict_keys cost) then Inr (new_variable k) else Inl (KeyError (arc_key k)))"
  by (simp add: getitem_def map_of_flow_variables)

lemma flow_terms_Inr:
  "flow_terms (flow_variables cost) ks = Inr ts \<longleftrightarrow>
     set ks \<subseteq> set (dict_keys cost) \<and> ts = map (\<lambda>k. (1, new_variable k)) ks"
  by (induction ks arbitrary: ts) (auto simp: getitem_flow_variables sbind_eq_Inr)

lemma flow_terms_Inl:
  "flow_terms (flow_variables cost) ks = Inl e \<Longrightarrow>
     \<exists>k \<in> set ks. k \<notin> set (dict_keys cost) \<and> e = KeyError (arc_key k)"
  by (induction ks) (auto simp: getitem_flow_variables sbind_eq_Inl split: if_splits)

lemma objective_terms_Inr:
  "set ks \<subseteq> set (dict_keys cost) \<Longrightarrow>
     objective_terms cost (flow_variables cost) ks =
       Inr (map (\<lambda>k. (the (map_of cost k), new_variable k)) ks)"
proof (induction ks)
  case Nil
  then show ?case by simp
next
  case (Cons k ks)
  then have "k \<in> set (dict_keys cost)" by simp
  then obtain c where c: "map_of cost k = Some c"
    by (cases "map_of cost k") (simp_all add: map_of_eq_None_keys)
  then have "getitem arc_key cost k = Inr c" by (simp add: getitem_eq_Inr)
  with Cons c show ?case by (simp add: getitem_flow_variables)
qed

lemma add_constraints_eq:
  "add_constraints mk xs p =
     sbind (loop_constraints mk xs) (\<lambda>cs. Inr (p\<lparr>constraints := constraints p @ cs\<rparr>))"
proof (induction xs arbitrary: p)
  case Nil
  then show ?case by simp
next
  case (Cons x xs)
  show ?case
  proof (cases "mk x")
    case (Inl e)
    then show ?thesis by simp
  next
    case (Inr c)
    then show ?thesis
      by (cases "loop_constraints mk xs") (simp_all add: Cons add_constraint_def)
  qed
qed

lemma loop_constraints_Inr:
  "loop_constraints mk xs = Inr cs \<longleftrightarrow> list_all2 (\<lambda>x c. mk x = Inr c) xs cs"
  by (induction xs arbitrary: cs) (auto simp: sbind_eq_Inr list_all2_Cons1)

lemma loop_constraints_Inl:
  "loop_constraints mk xs = Inl e \<Longrightarrow> \<exists>x \<in> set xs. mk x = Inl e"
  by (induction xs) (auto simp: sbind_eq_Inl)

lemma loop_constraints_total:
  "(\<exists>cs. loop_constraints mk xs = Inr cs) \<longleftrightarrow> (\<forall>x \<in> set xs. \<exists>c. mk x = Inr c)"
  by (induction xs) (auto simp: sbind_eq_Inr)

lemma transshipment_model_eq:
  "transshipment_model nodes supply demand cost =
     sbind (getitem StrKey nodes ''sources'') (\<lambda>S.
     sbind (getitem StrKey nodes ''transshipments'') (\<lambda>T.
     sbind (getitem StrKey nodes ''destinations'') (\<lambda>D.
     sbind (loop_constraints (supply_constraint (flow_variables cost) supply T) S) (\<lambda>c1.
     sbind (loop_constraints (demand_constraint (flow_variables cost) demand T) D) (\<lambda>c2.
     sbind (loop_constraints (transshipment_constraint (flow_variables cost) S D) T) (\<lambda>c3.
     Inr (flow_variables cost, model_problem cost c1 c2 c3)))))))"
  unfolding transshipment_model_def Let_def add_constraints_eq model_problem_def
  apply (simp add: objective_terms_Inr new_problem_def)
  apply (cases "getitem StrKey nodes ''sources''"; simp)
  apply (cases "getitem StrKey nodes ''transshipments''"; simp)
  apply (cases "getitem StrKey nodes ''destinations''"; simp)
  subgoal for S T D
    apply (cases "loop_constraints (supply_constraint (flow_variables cost) supply T) S"; simp)
    apply (cases "loop_constraints (demand_constraint (flow_variables cost) demand T) D"; simp)
    apply (cases "loop_constraints (transshipment_constraint (flow_variables cost) S D) T"; simp)
    done
  done

section \<open>The constraints of the model\<close>

lemma list_all2_rightD:
  "list_all2 P xs ys \<Longrightarrow> y \<in> set ys \<Longrightarrow> \<exists>x \<in> set xs. P x y"
  by (induction rule: list_all2_induct) auto

lemma list_all2_leftD:
  "list_all2 P xs ys \<Longrightarrow> x \<in> set xs \<Longrightarrow> \<exists>y \<in> set ys. P x y"
  by (induction rule: list_all2_induct) auto

lemma map_of_ex_Some_keys: "(\<exists>v. map_of d k = Some v) \<longleftrightarrow> k \<in> set (dict_keys d)"
  using map_of_eq_None_keys [of d k] by (cases "map_of d k") simp_all

lemma supply_constraint_Inr:
  "supply_constraint (flow_variables cost) supply T i = Inr c \<longleftrightarrow>
     (\<forall>k \<in> set T. (i, k) \<in> set (dict_keys cost)) \<and>
     (\<exists>s. map_of supply i = Some s \<and>
          c = \<lparr>lhs = lpSum (map (\<lambda>k. (1, new_variable (i, k))) T), sense = LpConstraintLE,
               rhs = number s, constraint_name = ''Supply_'' @ i\<rparr>)"
  by (auto simp: supply_constraint_def sbind_eq_Inr flow_terms_Inr getitem_eq_Inr comp_def)

lemma demand_constraint_Inr:
  "demand_constraint (flow_variables cost) demand T j = Inr c \<longleftrightarrow>
     (\<forall>k \<in> set T. (k, j) \<in> set (dict_keys cost)) \<and>
     (\<exists>d. map_of demand j = Some d \<and>
          c = \<lparr>lhs = lpSum (map (\<lambda>k. (1, new_variable (k, j))) T), sense = LpConstraintGE,
               rhs = number d, constraint_name = ''Demand_'' @ j\<rparr>)"
  by (auto simp: demand_constraint_def sbind_eq_Inr flow_terms_Inr getitem_eq_Inr comp_def)

lemma transshipment_constraint_Inr:
  "transshipment_constraint (flow_variables cost) S D k = Inr c \<longleftrightarrow>
     (\<forall>i \<in> set S. (i, k) \<in> set (dict_keys cost)) \<and>
     (\<forall>j \<in> set D. (k, j) \<in> set (dict_keys cost)) \<and>
     c = \<lparr>lhs = lpSum (map (\<lambda>i. (1, new_variable (i, k))) S), sense = LpConstraintEQ,
          rhs = lpSum (map (\<lambda>j. (1, new_variable (k, j))) D),
          constraint_name = ''Transshipment_'' @ k\<rparr>"
  by (auto simp: transshipment_constraint_def sbind_eq_Inr flow_terms_Inr comp_def)

lemma supply_constraint_Inl:
  "supply_constraint (flow_variables cost) supply T i = Inl e \<Longrightarrow> \<exists>k. e = KeyError k"
  by (auto simp: supply_constraint_def sbind_eq_Inl getitem_eq_Inl dest: flow_terms_Inl)

lemma demand_constraint_Inl:
  "demand_constraint (flow_variables cost) demand T j = Inl e \<Longrightarrow> \<exists>k. e = KeyError k"
  by (auto simp: demand_constraint_def sbind_eq_Inl getitem_eq_Inl dest: flow_terms_Inl)

lemma transshipment_constraint_Inl:
  "transshipment_constraint (flow_variables cost) S D k = Inl e \<Longrightarrow> \<exists>k. e = KeyError k"
  by (auto simp: transshipment_constraint_def sbind_eq_Inl dest: flow_terms_Inl)

lemma transshipment_model_Inl:
  "transshipment_model nodes supply demand cost = Inl e \<Longrightarrow> \<exists>k. e = KeyError k"
  unfolding transshipment_model_eq
  by (auto simp: sbind_eq_Inl getitem_eq_Inl
           dest!: loop_constraints_Inl
           dest: supply_constraint_Inl demand_constraint_Inl transshipment_constraint_Inl)

lemma transshipment_model_Inr:
  "transshipment_model nodes supply demand cost = Inr (flow, p) \<longleftrightarrow>
     roles_present nodes \<and> flow = flow_variables cost \<and>
     (\<exists>c1 c2 c3.
        p = model_problem cost c1 c2 c3 \<and>
        list_all2 (\<lambda>i c. supply_constraint (flow_variables cost) supply
                     (role nodes ''transshipments'') i = Inr c) (role nodes ''sources'') c1 \<and>
        list_all2 (\<lambda>j c. demand_constraint (flow_variables cost) demand
                     (role nodes ''transshipments'') j = Inr c) (role nodes ''destinations'') c2 \<and>
        list_all2 (\<lambda>k c. transshipment_constraint (flow_variables cost)
                     (role nodes ''sources'') (role nodes ''destinations'') k = Inr c)
                  (role nodes ''transshipments'') c3)"
  unfolding transshipment_model_eq
  by (auto simp: sbind_eq_Inr getitem_eq_Inr role_def roles_present_def loop_constraints_Inr;
      blast)

lemma transshipment_model_succeeds_iff:
  assumes "roles_present nodes"
  shows "(\<exists>flow p. transshipment_model nodes supply demand cost = Inr (flow, p)) \<longleftrightarrow>
         entries_present nodes supply demand cost"
proof -
  note tot = loop_constraints_total [unfolded loop_constraints_Inr]
  have "(\<exists>flow p. transshipment_model nodes supply demand cost = Inr (flow, p)) \<longleftrightarrow>
        (\<exists>c1. list_all2 (\<lambda>i c. supply_constraint (flow_variables cost) supply
                     (role nodes ''transshipments'') i = Inr c) (role nodes ''sources'') c1) \<and>
        (\<exists>c2. list_all2 (\<lambda>j c. demand_constraint (flow_variables cost) demand
                     (role nodes ''transshipments'') j = Inr c) (role nodes ''destinations'') c2) \<and>
        (\<exists>c3. list_all2 (\<lambda>k c. transshipment_constraint (flow_variables cost)
                     (role nodes ''sources'') (role nodes ''destinations'') k = Inr c)
                  (role nodes ''transshipments'') c3)"
    using assms by (simp add: transshipment_model_Inr)
  also have "\<dots> \<longleftrightarrow> entries_present nodes supply demand cost"
    unfolding tot
    unfolding supply_constraint_Inr demand_constraint_Inr transshipment_constraint_Inr
      entries_present_def
    by (auto simp: map_of_ex_Some_keys)
  finally show ?thesis .
qed

lemma solve_raises_model_error:
  "transshipment_model nodes supply demand cost = Inl e \<Longrightarrow>
   solve_transshipment_problem L nodes supply demand cost pn pb = Inl e"
  by (simp add: solve_transshipment_problem_def)

section \<open>Missing entries\<close>



section \<open>The three tiers\<close>

lemma model_constraint_cases:
  assumes "transshipment_model nodes supply demand cost = Inr (flow, p)"
    and "c \<in> set (constraints p)"
  shows "(\<exists>i \<in> set (role nodes ''sources'').
            supply_constraint (flow_variables cost) supply (role nodes ''transshipments'') i = Inr c) \<or>
         (\<exists>j \<in> set (role nodes ''destinations'').
            demand_constraint (flow_variables cost) demand (role nodes ''transshipments'') j = Inr c) \<or>
         (\<exists>k \<in> set (role nodes ''transshipments'').
            transshipment_constraint (flow_variables cost) (role nodes ''sources'')
              (role nodes ''destinations'') k = Inr c)"
proof -
  from assms(1) obtain c1 c2 c3 where p: "p = model_problem cost c1 c2 c3"
    and c1: "list_all2 (\<lambda>i c. supply_constraint (flow_variables cost) supply
                     (role nodes ''transshipments'') i = Inr c) (role nodes ''sources'') c1"
    and c2: "list_all2 (\<lambda>j c. demand_constraint (flow_variables cost) demand
                     (role nodes ''transshipments'') j = Inr c) (role nodes ''destinations'') c2"
    and c3: "list_all2 (\<lambda>k c. transshipment_constraint (flow_variables cost)
                     (role nodes ''sources'') (role nodes ''destinations'') k = Inr c)
                  (role nodes ''transshipments'') c3"
    unfolding transshipment_model_Inr by blast
  from assms(2) p have "c \<in> set c1 \<or> c \<in> set c2 \<or> c \<in> set c3"
    by (auto simp: model_problem_def)
  then show ?thesis
    using list_all2_rightD [OF c1] list_all2_rightD [OF c2] list_all2_rightD [OF c3] by blast
qed

lemma model_constraints_exist:
  assumes "transshipment_model nodes supply demand cost = Inr (flow, p)"
  shows "\<forall>i \<in> set (role nodes ''sources''). \<exists>c \<in> set (constraints p).
            supply_constraint (flow_variables cost) supply (role nodes ''transshipments'') i = Inr c"
    and "\<forall>j \<in> set (role nodes ''destinations''). \<exists>c \<in> set (constraints p).
            demand_constraint (flow_variables cost) demand (role nodes ''transshipments'') j = Inr c"
    and "\<forall>k \<in> set (role nodes ''transshipments''). \<exists>c \<in> set (constraints p).
            transshipment_constraint (flow_variables cost) (role nodes ''sources'')
              (role nodes ''destinations'') k = Inr c"
proof -
  from assms(1) obtain c1 c2 c3 where p: "p = model_problem cost c1 c2 c3"
    and c1: "list_all2 (\<lambda>i c. supply_constraint (flow_variables cost) supply
                     (role nodes ''transshipments'') i = Inr c) (role nodes ''sources'') c1"
    and c2: "list_all2 (\<lambda>j c. demand_constraint (flow_variables cost) demand
                     (role nodes ''transshipments'') j = Inr c) (role nodes ''destinations'') c2"
    and c3: "list_all2 (\<lambda>k c. transshipment_constraint (flow_variables cost)
                     (role nodes ''sources'') (role nodes ''destinations'') k = Inr c)
                  (role nodes ''transshipments'') c3"
    unfolding transshipment_model_Inr by blast
  have cs: "set (constraints p) = set c1 \<union> set c2 \<union> set c3"
    by (auto simp: p model_problem_def)
  show "\<forall>i \<in> set (role nodes ''sources''). \<exists>c \<in> set (constraints p).
            supply_constraint (flow_variables cost) supply (role nodes ''transshipments'') i = Inr c"
    using list_all2_leftD [OF c1] unfolding cs by blast
  show "\<forall>j \<in> set (role nodes ''destinations''). \<exists>c \<in> set (constraints p).
            demand_constraint (flow_variables cost) demand (role nodes ''transshipments'') j = Inr c"
    using list_all2_leftD [OF c2] unfolding cs by blast
  show "\<forall>k \<in> set (role nodes ''transshipments''). \<exists>c \<in> set (constraints p).
            transshipment_constraint (flow_variables cost) (role nodes ''sources'')
              (role nodes ''destinations'') k = Inr c"
    using list_all2_leftD [OF c3] unfolding cs by blast
qed

lemma model_objective:
  assumes "transshipment_model nodes supply demand cost = Inr (flow, p)"
  shows "objective p = lpSum (map (\<lambda>k. (the (map_of cost k), new_variable k)) (dict_keys cost))"
    and "flow = flow_variables cost"
  using assms unfolding transshipment_model_Inr by (auto simp: model_problem_def)

lemma constraint_variables_three_tier:
  assumes "transshipment_model nodes supply demand cost = Inr (flow, p)"
    and "c \<in> set (constraints p)" and "v \<in> set (constraint_variables c)"
  shows "three_tier_arc nodes (var_key v)"
  using model_constraint_cases [OF assms(1,2)] assms(3)
  by (auto simp: supply_constraint_Inr demand_constraint_Inr transshipment_constraint_Inr
        constraint_variables_def expression_variables_def lpSum_def number_def
        new_variable_def three_tier_arc_def)



section \<open>Keys of cost outside the roles\<close>

lemma dict_keys_without:
  "dict_keys (filter (\<lambda>e. fst e \<noteq> k) d) = filter (\<lambda>x. x \<noteq> k) (dict_keys d)"
  by (induction d) (simp_all add: dict_keys_def)

lemma flow_terms_without:
  "k \<notin> set ks \<Longrightarrow>
   flow_terms (flow_variables (filter (\<lambda>e. fst e \<noteq> k) cost)) ks =
   flow_terms (flow_variables cost) ks"
  by (induction ks) (auto simp: getitem_flow_variables dict_keys_without)

lemma loop_constraints_cong:
  "(\<And>x. x \<in> set xs \<Longrightarrow> mk x = mk' x) \<Longrightarrow> loop_constraints mk xs = loop_constraints mk' xs"
  by (induction xs) simp_all

lemma loops_without:
  assumes "\<not> three_tier_arc nodes k"
  shows "loop_constraints (supply_constraint (flow_variables (filter (\<lambda>e. fst e \<noteq> k) cost)) supply
            (role nodes ''transshipments'')) (role nodes ''sources'') =
         loop_constraints (supply_constraint (flow_variables cost) supply
            (role nodes ''transshipments'')) (role nodes ''sources'')"
    and "loop_constraints (demand_constraint (flow_variables (filter (\<lambda>e. fst e \<noteq> k) cost)) demand
            (role nodes ''transshipments'')) (role nodes ''destinations'') =
         loop_constraints (demand_constraint (flow_variables cost) demand
            (role nodes ''transshipments'')) (role nodes ''destinations'')"
    and "loop_constraints (transshipment_constraint (flow_variables (filter (\<lambda>e. fst e \<noteq> k) cost))
            (role nodes ''sources'') (role nodes ''destinations'')) (role nodes ''transshipments'') =
         loop_constraints (transshipment_constraint (flow_variables cost)
            (role nodes ''sources'') (role nodes ''destinations'')) (role nodes ''transshipments'')"
proof -
  have a: "k \<notin> set (map (\<lambda>j. (i, j)) (role nodes ''transshipments''))"
    if "i \<in> set (role nodes ''sources'')" for i
    using assms that by (auto simp: three_tier_arc_def)
  have b: "k \<notin> set (map (\<lambda>i. (i, j)) (role nodes ''transshipments''))"
    if "j \<in> set (role nodes ''destinations'')" for j
    using assms that by (auto simp: three_tier_arc_def)
  have c: "k \<notin> set (map (\<lambda>i. (i, t)) (role nodes ''sources''))"
          "k \<notin> set (map (\<lambda>j. (t, j)) (role nodes ''destinations''))"
    if "t \<in> set (role nodes ''transshipments'')" for t
    using assms that by (auto simp: three_tier_arc_def)
  show "loop_constraints (supply_constraint (flow_variables (filter (\<lambda>e. fst e \<noteq> k) cost)) supply
            (role nodes ''transshipments'')) (role nodes ''sources'') =
         loop_constraints (supply_constraint (flow_variables cost) supply
            (role nodes ''transshipments'')) (role nodes ''sources'')"
    by (rule loop_constraints_cong) (simp add: supply_constraint_def flow_terms_without [OF a])
  show "loop_constraints (demand_constraint (flow_variables (filter (\<lambda>e. fst e \<noteq> k) cost)) demand
            (role nodes ''transshipments'')) (role nodes ''destinations'') =
         loop_constraints (demand_constraint (flow_variables cost) demand
            (role nodes ''transshipments'')) (role nodes ''destinations'')"
    by (rule loop_constraints_cong) (simp add: demand_constraint_def flow_terms_without [OF b])
  show "loop_constraints (transshipment_constraint (flow_variables (filter (\<lambda>e. fst e \<noteq> k) cost))
            (role nodes ''sources'') (role nodes ''destinations'')) (role nodes ''transshipments'') =
         loop_constraints (transshipment_constraint (flow_variables cost)
            (role nodes ''sources'') (role nodes ''destinations'')) (role nodes ''transshipments'')"
    by (rule loop_constraints_cong)
       (simp add: transshipment_constraint_def flow_terms_without [OF c(1)]
          flow_terms_without [OF c(2)])
qed

lemma transshipment_model_role_eq:
  "transshipment_model nodes supply demand cost =
     sbind (getitem StrKey nodes ''sources'') (\<lambda>S.
     sbind (getitem StrKey nodes ''transshipments'') (\<lambda>T.
     sbind (getitem StrKey nodes ''destinations'') (\<lambda>D.
     sbind (loop_constraints (supply_constraint (flow_variables cost) supply
              (role nodes ''transshipments'')) (role nodes ''sources'')) (\<lambda>c1.
     sbind (loop_constraints (demand_constraint (flow_variables cost) demand
              (role nodes ''transshipments'')) (role nodes ''destinations'')) (\<lambda>c2.
     sbind (loop_constraints (transshipment_constraint (flow_variables cost)
              (role nodes ''sources'') (role nodes ''destinations''))
              (role nodes ''transshipments'')) (\<lambda>c3.
     Inr (flow_variables cost, model_problem cost c1 c2 c3)))))))"
  unfolding transshipment_model_eq
  by (auto simp: sbind_def getitem_def role_def split: option.splits sum.splits)



section \<open>The returned pair\<close>

lemma solve_after_model:
  assumes "transshipment_model nodes supply demand cost = Inr (flow, p)"
  shows "solve_transshipment_problem L nodes supply demand cost plot_network plot_bar_chart =
     sbind (solver_call (pulp_solve L p)) (\<lambda>solved.
     sbind (if plot_network
            then plot_transshipment_network L nodes supply demand cost flow (varValue solved)
            else Inr ()) (\<lambda>_.
     sbind (if plot_bar_chart
            then plot_stacked_bar_chart L flow (varValue solved) nodes
            else Inr ()) (\<lambda>_.
     Inr (returned_pair p (varValue solved)))))"
  by (simp add: solve_transshipment_problem_def assms returned_pair_def Let_def)

lemma drawing_call_Inl: "drawing_call r = Inl e \<longleftrightarrow> (\<exists>m. r = Some m \<and> e = LibraryError m)"
  by (cases r) (auto simp: drawing_call_def)

lemma solve_without_plots:
  assumes "transshipment_model nodes supply demand cost = Inr (flow, p)"
    and "pulp_solve L p = Inr solved"
  shows "solve_transshipment_problem L nodes supply demand cost False False =
           Inr (returned_pair p (varValue solved))"
  by (simp add: solve_after_model [OF assms(1)] assms(2) solver_call_def)

section \<open>The plot flags\<close>



section \<open>The solver's status\<close>

text \<open>
  Claim C6, as amended. When the model is built, the solver returns and the requested
  plotting functions return, the function returns the pair made of the values the
  solver left on the variables and of the objective at these values. The status the
  solver ended with does not occur in the result: an infeasible program is answered
  like any other.
\<close>

theorem status_is_not_inspected:
  assumes "transshipment_model nodes supply demand cost = Inr (flow, p)"
    and "pulp_solve L p = Inr solved"
    and "plot_network \<longrightarrow>
           plot_transshipment_network L nodes supply demand cost flow (varValue solved) = Inr ()"
    and "plot_bar_chart \<longrightarrow> plot_stacked_bar_chart L flow (varValue solved) nodes = Inr ()"
  shows "solve_transshipment_problem L nodes supply demand cost plot_network plot_bar_chart =
           Inr (\<lparr>columns = [''Variable'', ''Value''],
                 rows = map (\<lambda>v. (var_name v, varValue solved (var_key v))) (variables p)\<rparr>,
                pulp_value (varValue solved) (objective p))"
  using assms(2-4)
  by (simp add: solve_after_model [OF assms(1)] solver_call_def returned_pair_def)

theorem status_is_not_inspected_witness:
  "\<not> (\<exists>f. feasible_flow chain_nodes [(''F1'', 1)] [(''DC1'', 2)] chain_cost f) \<and>
   solve_transshipment_problem (quiet_library LpStatusInfeasible (chain_values 1 2)) chain_nodes
     [(''F1'', 1)] [(''DC1'', 2)] chain_cost True True =
   Inr (\<lparr>columns = [''Variable'', ''Value''],
         rows = [(''flow_F1_XD1'', Some 1), (''flow_XD1_DC1'', Some 2)]\<rparr>, Some 7)"
proof -
  let ?L = "quiet_library LpStatusInfeasible (chain_values 1 2)"
  let ?sol = "\<lparr>status = LpStatusInfeasible, varValue = chain_values 1 2\<rparr>"
  have "roles_present chain_nodes" by code_simp
  moreover have "entries_present chain_nodes [(''F1'', 1)] [(''DC1'', 2)] chain_cost" by code_simp
  ultimately obtain flow p where
    m: "transshipment_model chain_nodes [(''F1'', 1)] [(''DC1'', 2)] chain_cost = Inr (flow, p)"
    using transshipment_model_succeeds_iff [of chain_nodes "[(''F1'', 1)]" "[(''DC1'', 2)]" chain_cost]
    by blast
  have s: "pulp_solve ?L p = Inr ?sol" by (simp add: quiet_library_def)
  have e: "solve_transshipment_problem ?L chain_nodes [(''F1'', 1)] [(''DC1'', 2)] chain_cost True True =
     Inr (\<lparr>columns = [''Variable'', ''Value''],
         rows = [(''flow_F1_XD1'', Some 1), (''flow_XD1_DC1'', Some 2)]\<rparr>, Some 7)"
    by code_simp
  have pn: "True \<longrightarrow> plot_transshipment_network ?L chain_nodes [(''F1'', 1)] [(''DC1'', 2)] chain_cost
              flow (varValue ?sol) = Inr ()"
    using e by (auto simp: solve_after_model [OF m] s solver_call_def sbind_eq_Inr)
  have pb: "True \<longrightarrow> plot_stacked_bar_chart ?L flow (varValue ?sol) chain_nodes = Inr ()"
    using e by (auto simp: solve_after_model [OF m] s solver_call_def sbind_eq_Inr)
  have inf: "\<not> (\<exists>f. feasible_flow chain_nodes [(''F1'', 1)] [(''DC1'', 2)] chain_cost f)"
    by (auto simp: feasible_flow_def supply_limits_def demand_requirements_def
          flow_conservation_def role_def chain_nodes_def)
  show ?thesis
    using status_is_not_inspected [OF m s pn pb] e inf by simp
qed

text \<open>
  Claim C6 as stated fails: not every input is answered with a pair. With no entry for
  the destination in \<open>demand\<close> the function raises \<open>KeyError\<close>.
\<close>

theorem missing_demand_raises:
  "solve_transshipment_problem (quiet_library LpStatusOptimal (chain_values 2 2)) chain_nodes
     [(''F1'', 5)] [] chain_cost False False = Inl (KeyError (StrKey ''DC1''))"
  by code_simp

section \<open>Exceptions\<close>

lemma raised_by_solver: "pulp_solve L p = Inl m \<Longrightarrow> raised_by_library L (LibraryError m)"
  by (auto simp: raised_by_library_def)

lemma network_edges_Inr:
  "set ks \<subseteq> set (dict_keys cost) \<Longrightarrow>
   \<exists>es. network_edges cost (flow_variables cost) vals ks = Inr es"
proof (induction ks)
  case Nil
  then show ?case by simp
next
  case (Cons k ks)
  then obtain c where "map_of cost k = Some c"
    using map_of_ex_Some_keys [of cost k] by auto
  then have "getitem arc_key cost k = Inr c" by (simp add: getitem_eq_Inr)
  with Cons show ?case by (auto simp: getitem_flow_variables)
qed

lemma edge_labels_flow_Inl:
  "set ks \<subseteq> set (dict_keys cost) \<Longrightarrow>
   edge_labels L (flow_variables cost) vals ks = Inl e \<Longrightarrow>
   e = TypeError \<and> (\<exists>k \<in> set ks. vals k = None)"
  by (induction ks)
     (auto simp: getitem_flow_variables sbind_eq_Inl new_variable_def split: option.splits)

lemma plot_network_after_model_Inl:
  assumes "roles_present nodes"
    and "plot_transshipment_network L nodes supply demand cost (flow_variables cost) vals = Inl e"
  shows "(e = TypeError \<and> (\<exists>k \<in> set (dict_keys cost). vals k = None)) \<or> raised_by_library L e"
proof -
  obtain S T D where r: "getitem StrKey nodes ''sources'' = Inr S"
    "getitem StrKey nodes ''transshipments'' = Inr T"
    "getitem StrKey nodes ''destinations'' = Inr D"
    using assms(1) by (auto simp: roles_present_def getitem_eq_Inr)
  obtain es where es: "network_edges cost (flow_variables cost) vals (dict_keys cost) = Inr es"
    using network_edges_Inr [of "dict_keys cost" cost vals] by auto
  from assms(2) show ?thesis
    unfolding plot_transshipment_network_def Let_def r es sbind_Inr
    using edge_labels_flow_Inl [of "dict_keys cost" cost L vals e]
    by (auto simp: sbind_eq_Inl drawing_call_Inl raised_by_library_def)
qed

lemma plot_bars_after_model_Inl:
  assumes "roles_present nodes"
    and "plot_stacked_bar_chart L flow vals nodes = Inl e"
  shows "raised_by_library L e"
proof -
  obtain S T D where r: "getitem StrKey nodes ''sources'' = Inr S"
    "getitem StrKey nodes ''transshipments'' = Inr T"
    "getitem StrKey nodes ''destinations'' = Inr D"
    using assms(1) by (auto simp: roles_present_def getitem_eq_Inr)
  from assms(2) show ?thesis
    unfolding plot_stacked_bar_chart_def Let_def r sbind_Inr
    by (auto simp: sbind_eq_Inl drawing_call_Inl raised_by_library_def)
qed




section \<open>The program that is built is the transshipment problem\<close>

lemma terms_sum_flow:
  "terms_sum f (map (\<lambda>k. (1, new_variable (g k))) ks) = sum_list (map (\<lambda>k. f (g k)) ks)"
  by (simp add: terms_sum_def comp_def new_variable_def)

lemma expression_value_lpSum: "expression_value f (lpSum ts) = terms_sum f ts"
  by (simp add: expression_value_def lpSum_def)

lemma expression_value_number: "expression_value f (number c) = c"
  by (simp add: expression_value_def number_def terms_sum_def)

lemma supply_constraint_holds:
  assumes "supply_constraint (flow_variables cost) supply T i = Inr c"
  shows "\<exists>s. map_of supply i = Some s \<and>
             (constraint_holds f c \<longleftrightarrow> sum_list (map (\<lambda>k. f (i, k)) T) \<le> s)"
  using assms unfolding supply_constraint_Inr
  by (auto simp: constraint_holds_def expression_value_lpSum expression_value_number
        terms_sum_flow)

lemma demand_constraint_holds:
  assumes "demand_constraint (flow_variables cost) demand T j = Inr c"
  shows "\<exists>d. map_of demand j = Some d \<and>
             (constraint_holds f c \<longleftrightarrow> d \<le> sum_list (map (\<lambda>k. f (k, j)) T))"
  using assms unfolding demand_constraint_Inr
  by (auto simp: constraint_holds_def expression_value_lpSum expression_value_number
        terms_sum_flow)

lemma transshipment_constraint_holds:
  assumes "transshipment_constraint (flow_variables cost) S D k = Inr c"
  shows "constraint_holds f c \<longleftrightarrow>
           sum_list (map (\<lambda>i. f (i, k)) S) = sum_list (map (\<lambda>j. f (k, j)) D)"
  using assms unfolding transshipment_constraint_Inr
  by (auto simp: constraint_holds_def expression_value_lpSum terms_sum_flow)

lemma model_constraints_hold_iff:
  assumes "transshipment_model nodes supply demand cost = Inr (flow, p)"
  shows "(\<forall>c \<in> set (constraints p). constraint_holds f c) \<longleftrightarrow>
           supply_limits nodes supply f \<and> demand_requirements nodes demand f \<and>
           flow_conservation nodes f"
proof
  assume h: "\<forall>c \<in> set (constraints p). constraint_holds f c"
  have "supply_limits nodes supply f"
    unfolding supply_limits_def
  proof
    fix i assume "i \<in> set (role nodes ''sources'')"
    with model_constraints_exist(1) [OF assms] obtain c where "c \<in> set (constraints p)"
      and c: "supply_constraint (flow_variables cost) supply (role nodes ''transshipments'') i = Inr c"
      by blast
    with h have "constraint_holds f c" by blast
    with supply_constraint_holds [OF c, of f]
    show "\<exists>s. map_of supply i = Some s \<and>
            sum_list (map (\<lambda>k. f (i, k)) (role nodes ''transshipments'')) \<le> s"
      by blast
  qed
  moreover have "demand_requirements nodes demand f"
    unfolding demand_requirements_def
  proof
    fix j assume "j \<in> set (role nodes ''destinations'')"
    with model_constraints_exist(2) [OF assms] obtain c where "c \<in> set (constraints p)"
      and c: "demand_constraint (flow_variables cost) demand (role nodes ''transshipments'') j = Inr c"
      by blast
    with h have "constraint_holds f c" by blast
    with demand_constraint_holds [OF c, of f]
    show "\<exists>d. map_of demand j = Some d \<and>
            d \<le> sum_list (map (\<lambda>k. f (k, j)) (role nodes ''transshipments''))"
      by blast
  qed
  moreover have "flow_conservation nodes f"
    unfolding flow_conservation_def
  proof
    fix k assume "k \<in> set (role nodes ''transshipments'')"
    with model_constraints_exist(3) [OF assms] obtain c where "c \<in> set (constraints p)"
      and c: "transshipment_constraint (flow_variables cost) (role nodes ''sources'')
              (role nodes ''destinations'') k = Inr c"
      by blast
    with h have "constraint_holds f c" by blast
    with transshipment_constraint_holds [OF c, of f]
    show "sum_list (map (\<lambda>i. f (i, k)) (role nodes ''sources'')) =
          sum_list (map (\<lambda>j. f (k, j)) (role nodes ''destinations''))"
      by blast
  qed
  ultimately show "supply_limits nodes supply f \<and> demand_requirements nodes demand f \<and>
           flow_conservation nodes f" by simp
next
  assume h: "supply_limits nodes supply f \<and> demand_requirements nodes demand f \<and>
           flow_conservation nodes f"
  show "\<forall>c \<in> set (constraints p). constraint_holds f c"
  proof
    fix c assume "c \<in> set (constraints p)"
    from model_constraint_cases [OF assms this] show "constraint_holds f c"
    proof (elim disjE bexE)
      fix i assume i: "i \<in> set (role nodes ''sources'')"
        and c: "supply_constraint (flow_variables cost) supply (role nodes ''transshipments'') i = Inr c"
      from supply_constraint_holds [OF c, of f] h i show ?thesis
        by (auto simp: supply_limits_def)
    next
      fix j assume j: "j \<in> set (role nodes ''destinations'')"
        and c: "demand_constraint (flow_variables cost) demand (role nodes ''transshipments'') j = Inr c"
      from demand_constraint_holds [OF c, of f] h j show ?thesis
        by (auto simp: demand_requirements_def)
    next
      fix k assume k: "k \<in> set (role nodes ''transshipments'')"
        and c: "transshipment_constraint (flow_variables cost) (role nodes ''sources'')
              (role nodes ''destinations'') k = Inr c"
      from transshipment_constraint_holds [OF c, of f] h k show ?thesis
        by (auto simp: flow_conservation_def)
    qed
  qed
qed

lemma model_variables:
  assumes "transshipment_model nodes supply demand cost = Inr (flow, p)"
  shows "set (variables p) = new_variable ` set (dict_keys cost)"
proof -
  have o: "set (expression_variables (objective p)) = new_variable ` set (dict_keys cost)"
    by (force simp: model_objective(1) [OF assms] expression_variables_def lpSum_def)
  have c: "set (constraint_variables c) \<subseteq> new_variable ` set (dict_keys cost)"
    if "c \<in> set (constraints p)" for c
    using model_constraint_cases [OF assms that]
    by (auto simp: supply_constraint_Inr demand_constraint_Inr transshipment_constraint_Inr
          constraint_variables_def expression_variables_def lpSum_def number_def)
  have u: "(\<Union>c \<in> set (constraints p). set (constraint_variables c))
             \<subseteq> new_variable ` set (dict_keys cost)"
    by (rule UN_least) (rule c)
  have "set (variables p) =
          set (expression_variables (objective p)) \<union>
          (\<Union>c \<in> set (constraints p). set (constraint_variables c))"
    by (simp add: variables_def)
  also have "\<dots> = new_variable ` set (dict_keys cost)"
    unfolding o using u by (rule Un_absorb2)
  finally show ?thesis .
qed

lemma model_feasible_iff:
  assumes "transshipment_model nodes supply demand cost = Inr (flow, p)"
  shows "lp_feasible p f \<longleftrightarrow> feasible_flow nodes supply demand cost f"
proof -
  have "(\<forall>v \<in> set (variables p). within_bounds f v) \<longleftrightarrow> nonnegative_flow cost f"
    by (simp add: model_variables [OF assms] within_bounds_def new_variable_def
          nonnegative_flow_def)
  then show ?thesis
    by (simp add: lp_feasible_def feasible_flow_def model_constraints_hold_iff [OF assms])
qed

lemma objective_value_entries:
  assumes "distinct (map fst d)"
  shows "sum_list (map (\<lambda>k. the (map_of d k) * f k) (map fst d)) =
         sum_list (map (\<lambda>e. snd e * f (fst e)) d)"
proof -
  have "map_of d (fst e) = Some (snd e)" if "e \<in> set d" for e
    using assms that by (simp add: map_of_eq_Some_iff)
  then have "map ((\<lambda>k. the (map_of d k) * f k) \<circ> fst) d = map (\<lambda>e. snd e * f (fst e)) d"
    by (intro map_cong) simp_all
  then show ?thesis by (simp only: map_map)
qed

lemma model_objective_value:
  assumes "transshipment_model nodes supply demand cost = Inr (flow, p)"
    and "distinct (dict_keys cost)"
  shows "expression_value f (objective p) = total_flow_cost cost f"
  using objective_value_entries [of cost f] assms(2)
  by (simp add: model_objective(1) [OF assms(1)] expression_value_lpSum terms_sum_def
        comp_def new_variable_def total_flow_cost_def dict_keys_def)

lemma model_optimal_iff:
  assumes "transshipment_model nodes supply demand cost = Inr (flow, p)"
    and "distinct (dict_keys cost)"
  shows "lp_optimal p f \<longleftrightarrow> minimum_cost_flow nodes supply demand cost f"
  by (simp add: lp_optimal_def minimum_cost_flow_def model_feasible_iff [OF assms(1)]
        model_objective_value [OF assms])

lemma terms_value_assigned:
  "\<forall>t \<in> set ts. vals (var_key (snd t)) = Some (f (var_key (snd t))) \<Longrightarrow>
   terms_value vals ts = Some (terms_sum f ts)"
  by (induction ts) (auto simp: terms_sum_def)

lemma pulp_value_assigned:
  assumes "assigns s p f"
  shows "pulp_value (varValue s) (objective p) = Some (expression_value f (objective p))"
proof -
  have "\<forall>t \<in> set (terms (objective p)). snd t \<in> set (variables p)"
    by (auto simp: variables_def expression_variables_def)
  with assms have "\<forall>t \<in> set (terms (objective p)).
      varValue s (var_key (snd t)) = Some (f (var_key (snd t)))"
    by (auto simp: assigns_def)
  from terms_value_assigned [OF this] show ?thesis
    by (simp add: pulp_value_def expression_value_def)
qed

lemma returned_pair_assigned:
  assumes "assigns s p f"
  shows "returned_pair p (varValue s) =
           (\<lparr>columns = [''Variable'', ''Value''],
             rows = map (\<lambda>v. (var_name v, Some (f (var_key v)))) (variables p)\<rparr>,
            Some (expression_value f (objective p)))"
  using assms by (simp add: returned_pair_def pulp_value_assigned) (simp add: assigns_def)

lemma solve_assigned:
  assumes "transshipment_model nodes supply demand cost = Inr (flow, p)"
    and "pulp_solve L p = Inr solved" and "assigns solved p f"
  shows "solve_transshipment_problem L nodes supply demand cost False False =
           Inr (\<lparr>columns = [''Variable'', ''Value''],
                 rows = map (\<lambda>v. (var_name v, Some (f (var_key v)))) (variables p)\<rparr>,
                Some (expression_value f (objective p)))"
  by (simp add: solve_without_plots [OF assms(1,2)] returned_pair_assigned [OF assms(3)])

lemma model_variable_keys:
  assumes "transshipment_model nodes supply demand cost = Inr (flow, p)"
  shows "var_key ` set (variables p) = set (dict_keys cost)"
  by (force simp: model_variables [OF assms] new_variable_def)

section \<open>The chain of three nodes\<close>

lemma chain_model_exists:
  obtains flow p where
    "transshipment_model chain_nodes [(''F1'', s)] [(''DC1'', d)] chain_cost = Inr (flow, p)"
proof -
  have "roles_present chain_nodes" by code_simp
  moreover have "entries_present chain_nodes [(''F1'', s)] [(''DC1'', d)] chain_cost"
    by (simp add: entries_present_def role_def chain_nodes_def chain_cost_def dict_keys_def)
  ultimately show ?thesis
    using that transshipment_model_succeeds_iff [of chain_nodes "[(''F1'', s)]" "[(''DC1'', d)]" chain_cost]
    by blast
qed

lemma chain_assigns:
  assumes "transshipment_model chain_nodes supply demand chain_cost = Inr (flow, p)"
  shows "assigns \<lparr>status = st, varValue = chain_values x y\<rparr> p (chain_flow x y)"
  by (simp add: assigns_def model_variables [OF assms] new_variable_def chain_cost_def
        dict_keys_def chain_values_def chain_flow_def)

lemma chain_feasible_iff:
  "feasible_flow chain_nodes [(''F1'', s)] [(''DC1'', d)] chain_cost f \<longleftrightarrow>
     0 \<le> f (''F1'', ''XD1'') \<and> 0 \<le> f (''XD1'', ''DC1'') \<and> f (''F1'', ''XD1'') \<le> s \<and>
     d \<le> f (''XD1'', ''DC1'') \<and> f (''F1'', ''XD1'') = f (''XD1'', ''DC1'')"
  by (simp add: feasible_flow_def nonnegative_flow_def supply_limits_def
        demand_requirements_def flow_conservation_def role_def chain_nodes_def chain_cost_def
        dict_keys_def)

lemma chain_total: "total_flow_cost chain_cost f = f (''F1'', ''XD1'') + 3 * f (''XD1'', ''DC1'')"
  by (simp add: total_flow_cost_def chain_cost_def)

lemma chain_flow_at:
  "chain_flow x y (''F1'', ''XD1'') = x" "chain_flow x y (''XD1'', ''DC1'') = y"
  by (simp_all add: chain_flow_def)

section \<open>Minimum cost\<close>




section \<open>Supply limits, demand requirements and conservation\<close>










end
